theory Spec2Isabelle
  imports Main "HOL-Library.Word"
begin

unbundle bit_operations_syntax

section \<open>Python values, images and effects\<close>

text \<open>
  \<^verbatim>\<open>VirtualPainter.py\<close> holds one class, \<^verbatim>\<open>CollaborativePainter\<close>. Its
  methods are embedded below as functions over a record of the instance attributes
  that they read or write. The camera, the hand detector, the window and the logger
  take no part in the properties studied and are left out; what the detector
  reports in a frame is an input of the main loop.

  What arrives over the socket is arbitrary JSON, so the receive path works on
  untyped Python values. A (finite) float carries its value as mantissa and binary
  exponent; a dict is the list of its items, in order, with distinct keys.
\<close>

datatype pyval =
    PNone
  | PBool bool
  | PInt int
  | PFloat int int
  | PStr string
  | PList "pyval list"
  | PTuple "pyval list"
  | PDict "(string \<times> pyval) list"

text \<open>
  A pixel is a BGR triple of bytes. An image is read by row and column; the session
  uses the rows 0..719 and the columns 0..1279 only (the capture size set in
  \<^verbatim>\<open>init_camera\<close> and the shape of \<^verbatim>\<open>np.zeros((720, 1280, 3))\<close>).
\<close>

type_synonym pixel = "8 word \<times> 8 word \<times> 8 word"

type_synonym image = "int \<Rightarrow> int \<Rightarrow> pixel"

definition zeros :: image where
  "zeros = (\<lambda>y x. (0, 0, 0))"

text \<open>
  \<^verbatim>\<open>cv2.line(img, pt1, pt2, color, thickness)\<close> belongs to OpenCV, not to this
  program. It is a parameter of every function that draws. The call writes into
  the array it is given, and it either returns or raises; in both cases the array
  holds afterwards what the call has written. A call that raises may have written
  nothing (a rejected argument) or pixels of the segment already (an error that
  the binding reports only after drawing).
\<close>

datatype outcome = Returns image | Raises image

type_synonym line_fn = "image \<Rightarrow> pyval \<Rightarrow> pyval \<Rightarrow> pyval \<Rightarrow> pyval \<Rightarrow> outcome"

text \<open>
  The exceptions that matter below; \<open>Cv2Error\<close> stands for whatever the call of
  \<^verbatim>\<open>cv2.line\<close> raises.
\<close>

datatype error = AttributeError | KeyError | TypeError | Cv2Error

datatype socket = Socket

text \<open>
  What the program does to the outside: a handshake with its outcome, a sleep
  (in milliseconds: \<^verbatim>\<open>asyncio.sleep(1)\<close> is \<open>Sleep 1000\<close>,
  \<^verbatim>\<open>asyncio.sleep(0.001)\<close> is \<open>Sleep 1\<close>), the dispatch of an encoded record,
  the closing of the socket.
\<close>

datatype effect = Handshake bool | Sleep nat | Dispatch pyval | CloseSocket

datatype header = HeaderPink | HeaderBlue | HeaderGreen | HeaderEraser

section \<open>The painter\<close>

record painter =
  drawColor :: "int \<times> int \<times> int"
  brushThickness :: int
  eraserThickness :: int
  imgCanvas :: image
  displayBuffer :: image
  xp :: int
  yp :: int
  is_drawing :: bool
  current_brush :: string
  current_header :: header
  ws :: "socket option"
  running :: bool
  connected :: bool
  retry_count :: int
  max_retries :: int
  local_mode :: bool

text \<open>
  The state after \<^verbatim>\<open>__init__\<close>: \<^verbatim>\<open>init_drawing_settings\<close>,
  \<^verbatim>\<open>init_header_images\<close>, \<^verbatim>\<open>init_network\<close> and the flag
  \<^verbatim>\<open>local_mode = False\<close>.
\<close>

definition init_painter :: painter where
  "init_painter =
     \<lparr>drawColor = (189, 189, 103), brushThickness = 15, eraserThickness = 50,
      imgCanvas = zeros, displayBuffer = zeros, xp = 0, yp = 0, is_drawing = False,
      current_brush = ''pink'', current_header = HeaderPink,
      ws = None, running = True, connected = False, retry_count = 0, max_retries = 3,
      local_mode = False\<rparr>"

definition update_current_brush :: "painter \<Rightarrow> int \<Rightarrow> painter" where
  "update_current_brush s x1 =
     (if 250 < x1 \<and> x1 < 450 then
        s\<lparr>drawColor := (189, 189, 103), current_brush := ''pink'', current_header := HeaderPink\<rparr>
      else if 550 < x1 \<and> x1 < 750 then
        s\<lparr>drawColor := (86, 48, 189), current_brush := ''blue'', current_header := HeaderBlue\<rparr>
      else if 800 < x1 \<and> x1 < 1000 then
        s\<lparr>drawColor := (17, 141, 255), current_brush := ''green'', current_header := HeaderGreen\<rparr>
      else if 1050 < x1 \<and> x1 < 1200 then
        s\<lparr>drawColor := (0, 0, 0), current_brush := ''eraser'', current_header := HeaderEraser\<rparr>
      else s)"

subsection \<open>Connecting\<close>

text \<open>
  \<^verbatim>\<open>connect_to_server\<close>. The endpoint is the function \<open>answers\<close>: \<open>answers i\<close>
  tells whether the \<open>i\<close>-th handshake of this call (counted from 0) is accepted.
  The \<^verbatim>\<open>except Exception\<close> of the loop catches every failure of the handshake,
  so the call has no exceptional result. The loop stops because each failed attempt
  brings \<^verbatim>\<open>retry_count\<close> closer to \<^verbatim>\<open>max_retries\<close>.
\<close>

function connect_to_server :: "(nat \<Rightarrow> bool) \<Rightarrow> painter \<Rightarrow> bool \<times> painter \<times> effect list" where
  "connect_to_server answers s =
     (if retry_count s < max_retries s then
        (if answers 0 then
           (True, s\<lparr>ws := Some Socket, connected := True\<rparr>, [Handshake True])
         else
           (case connect_to_server (\<lambda>i. answers (Suc i)) (s\<lparr>retry_count := retry_count s + 1\<rparr>) of
              (ok, s', es) \<Rightarrow> (ok, s', Handshake False # Sleep 1000 # es)))
      else (False, s, []))"
  by pat_completeness auto
termination
  by (relation "measure (\<lambda>(answers, s). nat (max_retries s - retry_count s))") auto

declare connect_to_server.simps [simp del]

text \<open>Two endpoints: one refuses every handshake, one accepts the \<open>k\<close>-th only.\<close>

definition refusing :: "nat \<Rightarrow> bool" where
  "refusing i = False"

definition accepting_at :: "nat \<Rightarrow> nat \<Rightarrow> bool" where
  "accepting_at k i = (i = k)"

subsection \<open>Drawing and sending\<close>

text \<open>
  The record that \<^verbatim>\<open>send_drawing\<close> builds for the wire. Its arguments come
  from the main loop: integer coordinates of the detector, the colour triple
  \<^verbatim>\<open>drawColor\<close>, an integer thickness; so \<^verbatim>\<open>int(...)\<close> is the identity and
  \<^verbatim>\<open>list(color)\<close> the list of the three channels. \<open>now\<close> is the text of
  \<^verbatim>\<open>str(datetime.now().timestamp())\<close>, read from the clock when the record is
  built. \<^verbatim>\<open>json.dumps\<close> and \<^verbatim>\<open>json.loads\<close> are inverse to each other on
  such records; the wire message is identified with the record it carries.
\<close>

definition draw_event :: "int \<Rightarrow> int \<Rightarrow> int \<Rightarrow> int \<Rightarrow> int \<times> int \<times> int \<Rightarrow> int \<Rightarrow> string \<Rightarrow> pyval" where
  "draw_event x1 y1 x2 y2 color thickness now =
     (case color of (c0, c1, c2) \<Rightarrow>
        PDict [(''type'', PStr ''draw''),
               (''x1'', PInt x1), (''y1'', PInt y1), (''x2'', PInt x2), (''y2'', PInt y2),
               (''color'', PList [PInt c0, PInt c1, PInt c2]),
               (''thickness'', PInt thickness),
               (''timestamp'', PStr now)])"

definition color_tuple :: "int \<times> int \<times> int \<Rightarrow> pyval" where
  "color_tuple color = (case color of (c0, c1, c2) \<Rightarrow> PTuple [PInt c0, PInt c1, PInt c2])"

text \<open>
  \<^verbatim>\<open>send_drawing\<close>. The line is drawn and the snapshot replaced inside the lock,
  with no \<^verbatim>\<open>await\<close> in between. An exception of \<^verbatim>\<open>cv2.line\<close> is not caught
  here and leaves the method (\<open>Inl\<close>, with the state at that point: the canvas as
  the call left it, the snapshot not replaced). The
  \<^verbatim>\<open>try\<close> around the network part only guards the building of the record and
  the creation of the task, which do not fail on these arguments; the send itself
  runs later, in a task of its own.
\<close>

definition send_drawing ::
  "line_fn \<Rightarrow> string \<Rightarrow> painter \<Rightarrow> int \<Rightarrow> int \<Rightarrow> int \<Rightarrow> int \<Rightarrow> int \<times> int \<times> int \<Rightarrow> int
     \<Rightarrow> error \<times> painter + painter \<times> effect list" where
  "send_drawing line now s x1 y1 x2 y2 color thickness =
     (case line (imgCanvas s) (PTuple [PInt x1, PInt y1]) (PTuple [PInt x2, PInt y2])
             (color_tuple color) (PInt thickness) of
        Raises img \<Rightarrow> Inl (Cv2Error, s\<lparr>imgCanvas := img\<rparr>)
      | Returns img \<Rightarrow>
          (let s' = s\<lparr>imgCanvas := img, displayBuffer := img\<rparr> in
           if \<not> local_mode s' \<and> ws s' \<noteq> None \<and> connected s' then
             Inr (s', [Dispatch (draw_event x1 y1 x2 y2 color thickness now)])
           else Inr (s', [])))"

text \<open>The state that a call of \<^verbatim>\<open>send_drawing\<close> leaves, returned or raised.\<close>

fun after_send :: "error \<times> painter + painter \<times> effect list \<Rightarrow> painter" where
  "after_send (Inl (e, s)) = s"
| "after_send (Inr (s, es)) = s"

subsection \<open>Receiving\<close>

text \<open>\<^verbatim>\<open>tuple(v)\<close>: the items of an iterable, \<^verbatim>\<open>TypeError\<close> otherwise.\<close>

fun py_tuple :: "pyval \<Rightarrow> pyval option" where
  "py_tuple (PList xs) = Some (PTuple xs)"
| "py_tuple (PTuple xs) = Some (PTuple xs)"
| "py_tuple (PStr cs) = Some (PTuple (map (\<lambda>c. PStr [c]) cs))"
| "py_tuple (PDict kvs) = Some (PTuple (map (\<lambda>kv. PStr (fst kv)) kvs))"
| "py_tuple _ = None"

text \<open>
  The arguments of the \<^verbatim>\<open>cv2.line\<close> call of \<^verbatim>\<open>receive_drawings\<close>, evaluated
  from left to right: \<^verbatim>\<open>data['x1']\<close> ... raise \<^verbatim>\<open>KeyError\<close> on a missing
  key, \<^verbatim>\<open>tuple(data['color'])\<close> raises \<^verbatim>\<open>TypeError\<close> on a value that is not
  iterable. Nothing else about the fields is looked at.
\<close>

definition draw_args :: "(string \<times> pyval) list \<Rightarrow> error + pyval \<times> pyval \<times> pyval \<times> pyval" where
  "draw_args kvs =
     (case map_of kvs ''x1'' of None \<Rightarrow> Inl KeyError | Some x1 \<Rightarrow>
     (case map_of kvs ''y1'' of None \<Rightarrow> Inl KeyError | Some y1 \<Rightarrow>
     (case map_of kvs ''x2'' of None \<Rightarrow> Inl KeyError | Some x2 \<Rightarrow>
     (case map_of kvs ''y2'' of None \<Rightarrow> Inl KeyError | Some y2 \<Rightarrow>
     (case map_of kvs ''color'' of None \<Rightarrow> Inl KeyError | Some col \<Rightarrow>
     (case py_tuple col of None \<Rightarrow> Inl TypeError | Some c \<Rightarrow>
     (case map_of kvs ''thickness'' of None \<Rightarrow> Inl KeyError | Some th \<Rightarrow>
        Inr (PTuple [x1, y1], PTuple [x2, y2], c, th))))))))"

text \<open>
  The body of the \<^verbatim>\<open>try\<close> after \<^verbatim>\<open>json.loads\<close>, in two parts. First
  what is read from the message: \<^verbatim>\<open>data.get\<close> exists on a dict only
  (\<^verbatim>\<open>AttributeError\<close> otherwise); a record whose type is not \<^verbatim>\<open>'draw'\<close> is
  passed over (\<open>Inr None\<close>); otherwise the arguments of the line are evaluated.
  Then the line is drawn and the snapshot replaced, under the lock. An exception
  leaves the \<^verbatim>\<open>try\<close> with the state at that point (\<open>Inl\<close>); one raised by
  \<^verbatim>\<open>cv2.line\<close> finds the canvas as the call left it and the snapshot not
  replaced.
\<close>

definition decode :: "pyval \<Rightarrow> error + (pyval \<times> pyval \<times> pyval \<times> pyval) option" where
  "decode data =
     (case data of
        PDict kvs \<Rightarrow>
          (if map_of kvs ''type'' = Some (PStr ''draw'') then
             (case draw_args kvs of Inl e \<Rightarrow> Inl e | Inr args \<Rightarrow> Inr (Some args))
           else Inr None)
      | _ \<Rightarrow> Inl AttributeError)"

definition handle_message :: "line_fn \<Rightarrow> painter \<Rightarrow> pyval \<Rightarrow> error \<times> painter + painter" where
  "handle_message line s data =
     (case decode data of
        Inl e \<Rightarrow> Inl (e, s)
      | Inr None \<Rightarrow> Inr s
      | Inr (Some (p1, p2, c, th)) \<Rightarrow>
          (case line (imgCanvas s) p1 p2 c th of
             Raises img \<Rightarrow> Inl (Cv2Error, s\<lparr>imgCanvas := img\<rparr>)
           | Returns img \<Rightarrow> Inr (s\<lparr>imgCanvas := img, displayBuffer := img\<rparr>)))"

text \<open>
  What one \<^verbatim>\<open>await ... ws.recv()\<close> followed by \<^verbatim>\<open>json.loads\<close> can give: the
  timeout, a closed connection (with the endpoint's answers to the handshakes of
  the reconnection), another failure of the socket, a text that is not JSON, a
  parsed value.
\<close>

datatype recv =
    RecvTimeout
  | RecvClosed "nat \<Rightarrow> bool"
  | RecvFailed
  | RecvUnparseable
  | RecvJson pyval

text \<open>
  One pass through the body of \<^verbatim>\<open>while self.running\<close> in
  \<^verbatim>\<open>receive_drawings\<close>. The final \<^verbatim>\<open>asyncio.sleep(0.001)\<close> stands inside the
  \<^verbatim>\<open>if self.ws and self.connected\<close>, and \<^verbatim>\<open>continue\<close> skips it. Every
  exception but the timeout and the closed connection is logged and the pass goes
  on to the sleep. Without a
  socket or while not connected the body awaits nothing (\<open>None\<close>): the loop then
  spins and no other task of the program runs again.
\<close>

definition receive_iteration :: "line_fn \<Rightarrow> painter \<Rightarrow> recv \<Rightarrow> (painter \<times> effect list) option" where
  "receive_iteration line s r =
     (if ws s \<noteq> None \<and> connected s then
        Some (case r of
            RecvTimeout \<Rightarrow> (s, [])
          | RecvClosed answers \<Rightarrow>
              (case connect_to_server answers (s\<lparr>connected := False\<rparr>) of
                 (ok, s', es) \<Rightarrow> (s', es @ [Sleep 1]))
          | RecvFailed \<Rightarrow> (s, [Sleep 1])
          | RecvUnparseable \<Rightarrow> (s, [Sleep 1])
          | RecvJson data \<Rightarrow>
              (case handle_message line s data of
                 Inl (e, s') \<Rightarrow> (s', [Sleep 1])
               | Inr s' \<Rightarrow> (s', [Sleep 1])))
      else None)"

text \<open>
  The draw event as the specification's wire format describes it: the type tag
  \<^verbatim>\<open>"draw"\<close>, four integer coordinates, a colour of three channel values in
  0..255, a positive integer thickness. The program has no such test; the
  predicate serves to state what is claimed about the messages outside it.
\<close>

fun is_int :: "pyval \<Rightarrow> bool" where
  "is_int (PInt i) = True"
| "is_int _ = False"

fun is_channel :: "pyval \<Rightarrow> bool" where
  "is_channel (PInt i) = (0 \<le> i \<and> i \<le> 255)"
| "is_channel _ = False"

fun is_color_triple :: "pyval \<Rightarrow> bool" where
  "is_color_triple (PList [c0, c1, c2]) = (is_channel c0 \<and> is_channel c1 \<and> is_channel c2)"
| "is_color_triple _ = False"

fun is_thickness :: "pyval \<Rightarrow> bool" where
  "is_thickness (PInt t) = (0 < t)"
| "is_thickness _ = False"

definition field_is :: "(pyval \<Rightarrow> bool) \<Rightarrow> (string \<times> pyval) list \<Rightarrow> string \<Rightarrow> bool" where
  "field_is P kvs k = (case map_of kvs k of None \<Rightarrow> False | Some v \<Rightarrow> P v)"

fun well_formed_draw :: "pyval \<Rightarrow> bool" where
  "well_formed_draw (PDict kvs) =
     (map_of kvs ''type'' = Some (PStr ''draw'') \<and>
      field_is is_int kvs ''x1'' \<and> field_is is_int kvs ''y1'' \<and>
      field_is is_int kvs ''x2'' \<and> field_is is_int kvs ''y2'' \<and>
      field_is is_color_triple kvs ''color'' \<and> field_is is_thickness kvs ''thickness'')"
| "well_formed_draw _ = False"

subsection \<open>The main loop\<close>

text \<open>
  What the detector reports for one captured frame: whether a hand was found
  (\<^verbatim>\<open>len(lmList) != 0\<close>), the tip of the index finger (\<^verbatim>\<open>lmList[8][1:]\<close>),
  \<^verbatim>\<open>fingers[1]\<close> and \<^verbatim>\<open>fingers[2]\<close>; and the clock reading used if a record is
  sent.
\<close>

record frame =
  hand :: bool
  tip_x :: int
  tip_y :: int
  index_up :: bool
  middle_up :: bool
  clock :: string

text \<open>
  One pass through \<^verbatim>\<open>while True\<close> in \<^verbatim>\<open>run\<close>, from the detector's
  report to the overlay. The overlay (given below as \<open>overlay_canvas\<close>) and the
  window change no attribute; the test of the key and the sleep that end the pass
  are part of \<open>session\<close>.
\<close>

definition main_step :: "line_fn \<Rightarrow> painter \<Rightarrow> frame \<Rightarrow> error \<times> painter + painter \<times> effect list" where
  "main_step line s f =
     (if hand f then
        (if index_up f \<and> middle_up f then
           (let s1 = s\<lparr>is_drawing := False, xp := 0, yp := 0\<rparr>;
                s2 = (if tip_y f < 125 then update_current_brush s1 (tip_x f) else s1)
            in Inr (s2, []))
         else if index_up f \<and> \<not> middle_up f then
           (let s1 = (if \<not> is_drawing s
                      then s\<lparr>xp := tip_x f, yp := tip_y f, is_drawing := True\<rparr> else s);
                thickness = (if current_brush s1 = ''eraser''
                             then eraserThickness s1 else brushThickness s1)
            in case send_drawing line (clock f) s1 (xp s1) (yp s1) (tip_x f) (tip_y f)
                      (drawColor s1) thickness of
                 Inl e \<Rightarrow> Inl e
               | Inr (s2, es) \<Rightarrow> Inr (s2\<lparr>xp := tip_x f, yp := tip_y f\<rparr>, es))
         else Inr (s\<lparr>is_drawing := False\<rparr>, []))
      else Inr (s, []))"

definition cleanup :: "painter \<Rightarrow> painter \<times> effect list" where
  "cleanup s = (s\<lparr>running := False\<rparr>, if ws s \<noteq> None then [CloseSocket] else [])"

subsection \<open>A session\<close>

text \<open>
  The two tasks are cooperative: each runs from one \<^verbatim>\<open>await\<close> to the next, so a
  session is a sequence of passes of the main loop and of the receive loop, in any
  order. A reconnection is taken as one pass (the frames that the scheduler lets
  through between its attempts see \<^verbatim>\<open>connected = False\<close> and touch neither the
  socket nor the retry counter). The receive task exists only if the session did not
  start in local mode; \<^verbatim>\<open>local_mode\<close> is written nowhere after that. A pass
  of the main loop ends with \<^verbatim>\<open>asyncio.sleep(0.001)\<close> (\<open>Frame\<close>) unless the
  key \<^verbatim>\<open>q\<close> was pressed (\<open>Quit\<close>). That key or an exception in the main
  loop leads to \<^verbatim>\<open>cleanup\<close>; a receive that was pending at that moment still
  completes its pass before the loop sees \<^verbatim>\<open>running = False\<close>.
\<close>

datatype event = Frame frame | Receive recv | Quit frame

definition shutdown :: "line_fn \<Rightarrow> painter \<Rightarrow> event list \<Rightarrow> painter \<times> effect list" where
  "shutdown line s evs =
     (case cleanup s of (s1, es1) \<Rightarrow>
        (case evs of
           Receive r # _ \<Rightarrow>
             (if local_mode s1 then (s1, es1)
              else case receive_iteration line s1 r of
                     None \<Rightarrow> (s1, es1)
                   | Some (s2, es2) \<Rightarrow> (s2, es1 @ es2))
         | _ \<Rightarrow> (s1, es1)))"

fun session :: "line_fn \<Rightarrow> painter \<Rightarrow> event list \<Rightarrow> painter \<times> effect list" where
  "session line s [] = (s, [])"
| "session line s (Quit f # evs) =
     (case main_step line s f of
        Inl (e, s1) \<Rightarrow> shutdown line s1 evs
      | Inr (s1, es1) \<Rightarrow> (case shutdown line s1 evs of (s2, es2) \<Rightarrow> (s2, es1 @ es2)))"
| "session line s (Frame f # evs) =
     (case main_step line s f of
        Inl (e, s1) \<Rightarrow> shutdown line s1 evs
      | Inr (s1, es1) \<Rightarrow>
          (case session line s1 evs of (s2, es2) \<Rightarrow> (s2, es1 @ Sleep 1 # es2)))"
| "session line s (Receive r # evs) =
     (if local_mode s then session line s evs
      else case receive_iteration line s r of
             None \<Rightarrow> (s, [])
           | Some (s1, es1) \<Rightarrow> (case session line s1 evs of (s2, es2) \<Rightarrow> (s2, es1 @ es2)))"

text \<open>
  \<^verbatim>\<open>run\<close>: the first connection decides the mode, then the session goes on from
  the state after \<^verbatim>\<open>__init__\<close>.
\<close>

definition run_start :: "(nat \<Rightarrow> bool) \<Rightarrow> painter \<Rightarrow> painter \<times> effect list" where
  "run_start answers s =
     (case connect_to_server answers s of (ok, s', es) \<Rightarrow> (s'\<lparr>local_mode := \<not> ok\<rparr>, es))"

definition run :: "line_fn \<Rightarrow> (nat \<Rightarrow> bool) \<Rightarrow> event list \<Rightarrow> painter \<times> effect list" where
  "run line answers evs =
     (case run_start answers init_painter of (s0, es0) \<Rightarrow>
        (case session line s0 evs of (s1, es1) \<Rightarrow> (s1, es0 @ es1)))"

fun is_network :: "effect \<Rightarrow> bool" where
  "is_network (Handshake ok) = True"
| "is_network (Dispatch d) = True"
| "is_network CloseSocket = True"
| "is_network (Sleep n) = False"

definition attempts :: "effect list \<Rightarrow> nat" where
  "attempts es = length (filter (\<lambda>e. e = Handshake True \<or> e = Handshake False) es)"

definition failed_attempts :: "effect list \<Rightarrow> nat" where
  "failed_attempts es = length (filter (\<lambda>e. e = Handshake False) es)"

text \<open>
  The bookkeeping that every part of a session respects, from a state \<open>s\<close> over
  the effects \<open>es\<close> to a state \<open>s'\<close>: the bound and the mode are not written,
  the counter grows by the failed handshakes and stays within the bound, and a
  session in local mode without a socket stays so and does nothing on the network.
\<close>

definition accounted :: "painter \<Rightarrow> effect list \<Rightarrow> painter \<Rightarrow> bool" where
  "accounted s es s' \<longleftrightarrow>
     max_retries s' = max_retries s \<and> local_mode s' = local_mode s
     \<and> retry_count s' = retry_count s + int (failed_attempts es)
     \<and> (retry_count s \<le> max_retries s \<longrightarrow> retry_count s' \<le> max_retries s')
     \<and> (local_mode s \<and> ws s = None \<longrightarrow> ws s' = None \<and> filter is_network es = [])"

subsection \<open>The overlay\<close>

text \<open>
  The five OpenCV calls that lay the snapshot over the camera frame. Each returns
  a new array (none is given a destination), and \<^verbatim>\<open>img\<close> is rebound to the
  result. The weights of \<^verbatim>\<open>COLOR_BGR2GRAY\<close> are OpenCV's; the conversion is the
  parameter \<open>gray\<close>, applied to each pixel. The camera frame has the size of the
  canvas.
\<close>

type_synonym plane = "int \<Rightarrow> int \<Rightarrow> 8 word"

definition cvtColor_BGR2GRAY :: "(pixel \<Rightarrow> 8 word) \<Rightarrow> image \<Rightarrow> plane" where
  "cvtColor_BGR2GRAY gray img = (\<lambda>y x. gray (img y x))"

definition threshold_BINARY_INV :: "8 word \<Rightarrow> 8 word \<Rightarrow> plane \<Rightarrow> plane" where
  "threshold_BINARY_INV thresh maxval g = (\<lambda>y x. if thresh < g y x then 0 else maxval)"

definition cvtColor_GRAY2BGR :: "plane \<Rightarrow> image" where
  "cvtColor_GRAY2BGR g = (\<lambda>y x. (g y x, g y x, g y x))"

definition pixel_and :: "pixel \<Rightarrow> pixel \<Rightarrow> pixel" where
  "pixel_and p q = (case (p, q) of ((p0, p1, p2), (q0, q1, q2)) \<Rightarrow> (p0 AND q0, p1 AND q1, p2 AND q2))"

definition pixel_or :: "pixel \<Rightarrow> pixel \<Rightarrow> pixel" where
  "pixel_or p q = (case (p, q) of ((p0, p1, p2), (q0, q1, q2)) \<Rightarrow> (p0 OR q0, p1 OR q1, p2 OR q2))"

definition bitwise_and :: "image \<Rightarrow> image \<Rightarrow> image" where
  "bitwise_and a b = (\<lambda>y x. pixel_and (a y x) (b y x))"

definition bitwise_or :: "image \<Rightarrow> image \<Rightarrow> image" where
  "bitwise_or a b = (\<lambda>y x. pixel_or (a y x) (b y x))"

definition overlay_canvas :: "(pixel \<Rightarrow> 8 word) \<Rightarrow> painter \<Rightarrow> image \<Rightarrow> painter \<times> image" where
  "overlay_canvas gray s img =
     (let imgGray = cvtColor_BGR2GRAY gray (displayBuffer s);
          imgInv = threshold_BINARY_INV 50 255 imgGray;
          imgInv = cvtColor_GRAY2BGR imgInv;
          img = bitwise_and img imgInv;
          img = bitwise_or img (displayBuffer s)
      in (s, img))"

text \<open>
  OpenCV's conversion of a BGR byte triple: the weights 0.114, 0.587 and 0.299 in
  fixed point with 15 fractional bits (3735, 19235 and 9798, which add up to
  \<open>2 ^ 15\<close>), rounded by adding half before the shift.
\<close>

definition luma :: "pixel \<Rightarrow> 8 word" where
  "luma p = (case p of (b, g, r) \<Rightarrow>
     word_of_nat ((3735 * unat b + 19235 * unat g + 9798 * unat r + 16384) div 32768))"

subsection \<open>A stand-in for the line in concrete runs\<close>

text \<open>
  Every general statement below holds for every \<open>line\<close>. Where a run is
  evaluated, \<open>line\<close> is the following stand-in. On a plain stroke, that is two
  points of C integers, a colour of three or four integer channels in 0..255
  (OpenCV's \<^verbatim>\<open>Scalar\<close> has four; a canvas of three channels takes the first
  three) and an integer thickness in 1..32767, OpenCV draws the segment and
  returns; the stand-in sets the two end points that lie inside the frame, which
  every drawn segment covers. On all other arguments the stand-in raises and writes
  nothing. OpenCV's binding accepts some of those and draws (a thickness of
  \<^verbatim>\<open>None\<close>, for one); no run below passes any of them.
\<close>

fun plain_point :: "pyval \<Rightarrow> (int \<times> int) option" where
  "plain_point (PTuple [PInt x, PInt y]) =
     (if - 2147483648 \<le> x \<and> x \<le> 2147483647 \<and> - 2147483648 \<le> y \<and> y \<le> 2147483647
      then Some (x, y) else None)"
| "plain_point _ = None"

fun plain_channel :: "pyval \<Rightarrow> 8 word option" where
  "plain_channel (PInt i) = (if 0 \<le> i \<and> i \<le> 255 then Some (word_of_int i) else None)"
| "plain_channel _ = None"

fun plain_color :: "pyval \<Rightarrow> pixel option" where
  "plain_color (PTuple (v0 # v1 # v2 # rest)) =
     (case (plain_channel v0, plain_channel v1, plain_channel v2) of
        (Some c0, Some c1, Some c2) \<Rightarrow>
          (case rest of
             [] \<Rightarrow> Some (c0, c1, c2)
           | [v3] \<Rightarrow> (case plain_channel v3 of Some c3 \<Rightarrow> Some (c0, c1, c2) | None \<Rightarrow> None)
           | _ \<Rightarrow> None)
      | _ \<Rightarrow> None)"
| "plain_color _ = None"

fun plain_thickness :: "pyval \<Rightarrow> int option" where
  "plain_thickness (PInt t) = (if 0 < t \<and> t \<le> 32767 then Some t else None)"
| "plain_thickness _ = None"

definition plot :: "image \<Rightarrow> int \<times> int \<Rightarrow> pixel \<Rightarrow> image" where
  "plot img p c =
     (case p of (x, y) \<Rightarrow>
        if 0 \<le> x \<and> x < 1280 \<and> 0 \<le> y \<and> y < 720 then img(y := (img y)(x := c)) else img)"

definition plot_ends :: "image \<Rightarrow> int \<times> int \<Rightarrow> int \<times> int \<Rightarrow> pixel \<Rightarrow> int \<Rightarrow> image" where
  "plot_ends img p q c t = plot (plot img p c) q c"

definition stroke_line :: line_fn where
  "stroke_line img pt1 pt2 color thickness =
     (case (plain_point pt1, plain_point pt2, plain_color color, plain_thickness thickness) of
        (Some p, Some q, Some c, Some t) \<Rightarrow> Returns (plot_ends img p q c t)
      | _ \<Rightarrow> Raises img)"

section \<open>Properties\<close>

subsection \<open>The brush selection\<close>

text \<open>
  C10. For every x-coordinate outside the four selection bands, that is
  \<open>x \<le> 250\<close>, \<open>450 \<le> x \<le> 550\<close>, \<open>750 \<le> x \<le> 800\<close>, \<open>1000 \<le> x \<le> 1050\<close> or
  \<open>x \<ge> 1200\<close> (the comparisons of the code are strict, so the bounds of the bands
  are outside), \<^verbatim>\<open>update_current_brush\<close> leaves \<^verbatim>\<open>drawColor\<close>,
  \<^verbatim>\<open>current_brush\<close> and \<^verbatim>\<open>current_header\<close> as they were.
\<close>

theorem update_current_brush_outside_bands:
  assumes "x \<le> 250 \<or> (450 \<le> x \<and> x \<le> 550) \<or> (750 \<le> x \<and> x \<le> 800)
             \<or> (1000 \<le> x \<and> x \<le> 1050) \<or> 1200 \<le> x"
  shows "drawColor (update_current_brush s x) = drawColor s
           \<and> current_brush (update_current_brush s x) = current_brush s
           \<and> current_header (update_current_brush s x) = current_header s"
  using assms by (auto simp: update_current_brush_def)

theorem update_current_brush_outside_bands_witness:
  "drawColor (update_current_brush (init_painter\<lparr>drawColor := (86, 48, 189),
       current_brush := ''blue'', current_header := HeaderBlue\<rparr>) 450) = (86, 48, 189)
   \<and> current_brush (update_current_brush (init_painter\<lparr>drawColor := (86, 48, 189),
       current_brush := ''blue'', current_header := HeaderBlue\<rparr>) 450) = ''blue''
   \<and> current_header (update_current_brush (init_painter\<lparr>drawColor := (86, 48, 189),
       current_brush := ''blue'', current_header := HeaderBlue\<rparr>) 450) = HeaderBlue"
  using update_current_brush_outside_bands [of 450 "init_painter\<lparr>drawColor := (86, 48, 189),
       current_brush := ''blue'', current_header := HeaderBlue\<rparr>"]
  by simp

subsection \<open>The retry counter\<close>

text \<open>
  What a call of \<^verbatim>\<open>connect_to_server\<close> changes and what it leaves: the counter
  grows by the number of failed handshakes and stays below the bound once it was
  below; a success sets the socket and \<^verbatim>\<open>connected\<close>; a failure comes with an
  exhausted counter; the call returns \<open>True\<close> exactly if one of its handshakes
  was accepted; canvas, snapshot and mode are not touched.
\<close>

lemma connect_to_server_frame:
  "connect_to_server answers s = (ok, s', es) \<Longrightarrow>
     max_retries s' = max_retries s \<and> local_mode s' = local_mode s
     \<and> imgCanvas s' = imgCanvas s \<and> displayBuffer s' = displayBuffer s
     \<and> running s' = running s
     \<and> retry_count s' = retry_count s + int (failed_attempts es)
     \<and> (retry_count s \<le> max_retries s \<longrightarrow> retry_count s' \<le> max_retries s')
     \<and> connected s' = (ok \<or> connected s)
     \<and> (ok \<longrightarrow> ws s' \<noteq> None \<and> retry_count s' < max_retries s')
     \<and> (\<not> ok \<longrightarrow> ws s' = ws s \<and> max_retries s' \<le> retry_count s')
     \<and> int (attempts es) \<le> max 0 (max_retries s - retry_count s)
     \<and> (retry_count s < max_retries s \<longrightarrow> 1 \<le> attempts es)
     \<and> ok = (Handshake True \<in> set es)"
proof (induction answers s arbitrary: ok s' es rule: connect_to_server.induct)
  case (1 answers s)
  show ?case
  proof (cases "retry_count s < max_retries s")
    case guard: True
    show ?thesis
    proof (cases "answers 0")
      case True
      with guard "1.prems" show ?thesis
        by (subst (asm) connect_to_server.simps) (auto simp: failed_attempts_def attempts_def)
    next
      case False
      let ?s = "s\<lparr>retry_count := retry_count s + 1\<rparr>"
      obtain ok1 s1 es1 where r: "connect_to_server (\<lambda>i. answers (Suc i)) ?s = (ok1, s1, es1)"
        by (cases "connect_to_server (\<lambda>i. answers (Suc i)) ?s") auto
      note ih = "1.IH" [OF guard False r]
      from "1.prems" guard False r
      have eq: "ok = ok1" "s' = s1" "es = Handshake False # Sleep 1000 # es1"
        by (subst (asm) connect_to_server.simps, simp)+
      show ?thesis using ih guard unfolding eq
        by (auto simp: failed_attempts_def attempts_def)
    qed
  next
    case False
    with "1.prems" show ?thesis
      by (subst (asm) connect_to_server.simps) (auto simp: failed_attempts_def attempts_def)
  qed
qed

text \<open>
  C2, as amended. A call of \<^verbatim>\<open>connect_to_server\<close> against an endpoint that
  refuses every handshake performs exactly \<open>max_retries - retry_count\<close> attempts,
  where \<open>retry_count\<close> is the number of failures already counted in the session:
  three for a fresh counter, fewer afterwards. Each attempt is followed by the
  sleep of one second, and the call returns \<open>False\<close>.
\<close>

theorem connect_to_server_refused:
  assumes "\<forall>i. \<not> answers i" and "retry_count s \<le> max_retries s"
  shows "connect_to_server answers s =
           (False, s\<lparr>retry_count := max_retries s\<rparr>,
            concat (replicate (nat (max_retries s - retry_count s)) [Handshake False, Sleep 1000]))"
  using assms
proof (induction answers s rule: connect_to_server.induct)
  case (1 answers s)
  show ?case
  proof (cases "retry_count s < max_retries s")
    case True
    let ?s = "s\<lparr>retry_count := retry_count s + 1\<rparr>"
    have n: "nat (max_retries s - retry_count s) = Suc (nat (max_retries ?s - retry_count ?s))"
      using True by simp
    have "connect_to_server (\<lambda>i. answers (Suc i)) ?s =
            (False, ?s\<lparr>retry_count := max_retries ?s\<rparr>,
             concat (replicate (nat (max_retries ?s - retry_count ?s)) [Handshake False, Sleep 1000]))"
      using "1.IH" True "1.prems" by simp
    then show ?thesis using True "1.prems"(1)
      by (subst connect_to_server.simps) (simp add: n)
  next
    case False
    then have "retry_count s = max_retries s" using "1.prems" by simp
    then show ?thesis by (subst connect_to_server.simps) simp
  qed
qed

theorem connect_to_server_refused_witness:
  "connect_to_server refusing init_painter =
     (False, init_painter\<lparr>retry_count := 3\<rparr>,
      [Handshake False, Sleep 1000, Handshake False, Sleep 1000, Handshake False, Sleep 1000])"
  using connect_to_server_refused [of refusing init_painter]
  by (simp add: refusing_def init_painter_def numeral_3_eq_3)

text \<open>
  C2 as stated (three attempts in every call) fails for a call that follows
  earlier failures: the first connection succeeds at its third attempt, the
  connection is lost, and the endpoint refuses from then on. The second call makes
  one attempt.
\<close>

theorem connect_to_server_refused_counterexample:
  "connect_to_server refusing
     ((fst (snd (connect_to_server (accepting_at 2) init_painter)))\<lparr>connected := False\<rparr>) =
     (False,
      init_painter\<lparr>ws := Some Socket, retry_count := 3\<rparr>,
      [Handshake False, Sleep 1000])
   \<and> attempts [Handshake False, Sleep 1000] = 1"
  by (simp add: connect_to_server.simps refusing_def accepting_at_def init_painter_def attempts_def)

subsection \<open>Sessions\<close>

text \<open>Every part of a session keeps the books in the sense of \<open>accounted\<close>.\<close>

lemma accounted_refl: "accounted s [] s"
  by (simp add: accounted_def failed_attempts_def)

lemma accounted_trans:
  "accounted s es s1 \<Longrightarrow> accounted s1 es1 s2 \<Longrightarrow> accounted s (es @ es1) s2"
  by (auto simp: accounted_def failed_attempts_def)

lemma send_drawing_Inl:
  "send_drawing line now s x1 y1 x2 y2 c t = Inl (e, s') \<Longrightarrow> \<exists>img. s' = s\<lparr>imgCanvas := img\<rparr>"
  by (auto simp: send_drawing_def Let_def split: outcome.splits if_splits)

lemma send_drawing_Inr:
  "send_drawing line now s x1 y1 x2 y2 c t = Inr (s', es) \<Longrightarrow>
     (\<exists>img. s' = s\<lparr>imgCanvas := img, displayBuffer := img\<rparr>) \<and> failed_attempts es = 0
     \<and> (local_mode s \<longrightarrow> es = [])"
  by (auto simp: send_drawing_def Let_def failed_attempts_def split: outcome.splits if_splits)

lemma update_current_brush_net:
  "max_retries (update_current_brush s x) = max_retries s \<and> local_mode (update_current_brush s x) = local_mode s
   \<and> retry_count (update_current_brush s x) = retry_count s \<and> ws (update_current_brush s x) = ws s
   \<and> connected (update_current_brush s x) = connected s"
  by (simp add: update_current_brush_def)

lemma main_step_Inl: "main_step line s f = Inl (e, s') \<Longrightarrow> accounted s [] s'"
  by (auto simp: main_step_def Let_def accounted_def failed_attempts_def 
        split: if_splits sum.splits dest!: send_drawing_Inl)

lemma main_step_Inr: "main_step line s f = Inr (s', es) \<Longrightarrow> accounted s es s'"
  by (auto simp: main_step_def Let_def accounted_def failed_attempts_def update_current_brush_net
        split: if_splits sum.splits dest!: send_drawing_Inr)

lemma cleanup_accounted: "cleanup s = (s', es) \<Longrightarrow> accounted s es s'"
  by (auto simp: cleanup_def accounted_def failed_attempts_def)

lemma receive_iteration_accounted:
  assumes "receive_iteration line s r = Some (s', es)" and "\<not> local_mode s"
  shows "accounted s es s'"
proof (cases r)
  case (RecvClosed answers)
  obtain ok s1 es1 where c: "connect_to_server answers (s\<lparr>connected := False\<rparr>) = (ok, s1, es1)"
    by (cases "connect_to_server answers (s\<lparr>connected := False\<rparr>)") auto
  with assms RecvClosed have eq: "s' = s1" "es = es1 @ [Sleep 1]"
    by (auto simp: receive_iteration_def split: if_splits)
  from connect_to_server_frame [OF c] assms(2) show ?thesis
    unfolding eq by (auto simp: accounted_def failed_attempts_def)
next
  case (RecvJson data)
  with assms show ?thesis
    by (auto simp: receive_iteration_def handle_message_def accounted_def failed_attempts_def
        split: if_splits sum.splits option.splits outcome.splits)
qed (use assms in \<open>auto simp: receive_iteration_def accounted_def failed_attempts_def split: if_splits\<close>)

lemma shutdown_accounted: "shutdown line s evs = (s', es) \<Longrightarrow> accounted s es s'"
proof -
  assume a: "shutdown line s evs = (s', es)"
  obtain s1 es1 where c: "cleanup s = (s1, es1)" by (cases "cleanup s") auto
  then have c': "accounted s es1 s1" by (rule cleanup_accounted)
  have lm: "local_mode s1 = local_mode s" using c by (auto simp: cleanup_def)
  show ?thesis
  proof (cases "\<exists>r evs'. evs = Receive r # evs' \<and> \<not> local_mode s1 \<and> receive_iteration line s1 r \<noteq> None")
    case True
    then obtain r evs' s2 es2 where ev: "evs = Receive r # evs'" "\<not> local_mode s1"
       and ri: "receive_iteration line s1 r = Some (s2, es2)" by auto
    from a c ev ri have "s' = s2" "es = es1 @ es2" by (auto simp: shutdown_def)
    with accounted_trans [OF c' receive_iteration_accounted [OF ri ev(2)]] show ?thesis by simp
  next
    case False
    with a c have "s' = s1" "es = es1"
      by (auto simp: shutdown_def split: list.splits event.splits if_splits option.splits)
    with c' show ?thesis by simp
  qed
qed

lemma sleep_accounted: "accounted s [Sleep n] s"
  by (simp add: accounted_def failed_attempts_def)

lemma session_accounted: "session line s evs = (s', es) \<Longrightarrow> accounted s es s'"
proof (induction line s evs arbitrary: s' es rule: session.induct)
  case (1 line s)
  then show ?case by (simp add: accounted_refl)
next
  case (2 line s f evs)
  show ?case
  proof (cases "main_step line s f")
    case (Inl a)
    obtain e s1 where a: "a = (e, s1)" by (cases a) auto
    with Inl "2.prems" have "shutdown line s1 evs = (s', es)" by simp
    from accounted_trans [OF main_step_Inl [OF Inl [unfolded a]] shutdown_accounted [OF this]]
    show ?thesis by simp
  next
    case (Inr b)
    obtain s1 es1 where b: "b = (s1, es1)" by (cases b) auto
    obtain s2 es2 where r: "shutdown line s1 evs = (s2, es2)" by (cases "shutdown line s1 evs") auto
    from Inr b r "2.prems" have eq: "s' = s2" "es = es1 @ es2" by auto
    from accounted_trans [OF main_step_Inr [OF Inr [unfolded b]] shutdown_accounted [OF r]]
    show ?thesis by (simp add: eq)
  qed
next
  case (3 line s f evs)
  show ?case
  proof (cases "main_step line s f")
    case (Inl a)
    obtain e s1 where a: "a = (e, s1)" by (cases a) auto
    with Inl "3.prems" have "shutdown line s1 evs = (s', es)" by simp
    from accounted_trans [OF main_step_Inl [OF Inl [unfolded a]] shutdown_accounted [OF this]]
    show ?thesis by simp
  next
    case (Inr b)
    obtain s1 es1 where b: "b = (s1, es1)" by (cases b) auto
    obtain s2 es2 where r: "session line s1 evs = (s2, es2)" by (cases "session line s1 evs") auto
    from Inr b r "3.prems" have eq: "s' = s2" "es = es1 @ [Sleep 1] @ es2" by auto
    from "3.IH" [OF Inr b [symmetric] r] have "accounted s1 es2 s2" .
    from accounted_trans [OF main_step_Inr [OF Inr [unfolded b]]
           accounted_trans [OF sleep_accounted this]]
    show ?thesis by (simp add: eq)
  qed
next
  case (4 line s r evs)
  show ?case
  proof (cases "local_mode s")
    case True
    with "4.prems" "4.IH"(1) show ?thesis by simp
  next
    case False
    show ?thesis
    proof (cases "receive_iteration line s r")
      case None
      with False "4.prems" show ?thesis by (simp add: accounted_refl)
    next
      case (Some a)
      obtain s1 es1 where a: "a = (s1, es1)" by (cases a) auto
      obtain s2 es2 where r: "session line s1 evs = (s2, es2)" by (cases "session line s1 evs") auto
      from Some a r False "4.prems" have eq: "s' = s2" "es = es1 @ es2" by auto
      from "4.IH"(2) [OF False Some a [symmetric] r] have "accounted s1 es2 s2" .
      from accounted_trans [OF receive_iteration_accounted [OF Some [unfolded a] False] this]
      show ?thesis by (simp add: eq)
    qed
  qed
qed

text \<open>
  C9. The retry counter is incremented on every failed connection attempt and is
  reset nowhere: at every point of a session, from \<^verbatim>\<open>run\<close> on, it equals the
  number of failed handshakes of the whole session so far, over the first
  connection and every reconnection, and that number is at most
  \<^verbatim>\<open>max_retries\<close>, which is 3. Once three failures have accumulated, a later
  call of \<^verbatim>\<open>connect_to_server\<close> returns \<open>False\<close> at once, without an attempt,
  whatever the endpoint would answer.
\<close>

theorem retry_budget:
  assumes "run line answers evs = (s, es)"
  shows "retry_count s = int (failed_attempts es) \<and> failed_attempts es \<le> 3 \<and> max_retries s = 3
           \<and> (failed_attempts es = 3 \<longrightarrow> connect_to_server answers' s = (False, s, []))"
proof -
  obtain ok s1 es0 where c: "connect_to_server answers init_painter = (ok, s1, es0)"
    by (cases "connect_to_server answers init_painter") auto
  let ?s0 = "s1\<lparr>local_mode := \<not> ok\<rparr>"
  obtain s2 es2 where r: "session line ?s0 evs = (s2, es2)"
    by (cases "session line ?s0 evs") auto
  from assms c r have eq: "s = s2" "es = es0 @ es2"
    by (auto simp: run_def run_start_def)
  from connect_to_server_frame [OF c]
  have 0: "max_retries ?s0 = 3" "retry_count ?s0 = int (failed_attempts es0)"
    "retry_count ?s0 \<le> max_retries ?s0"
    by (auto simp: init_painter_def)
  from session_accounted [OF r] 0
  have 1: "max_retries s = 3" "retry_count s = int (failed_attempts es)" "retry_count s \<le> 3"
    by (auto simp: accounted_def eq failed_attempts_def)
  then have "failed_attempts es = 3 \<longrightarrow> connect_to_server answers' s = (False, s, [])"
    by (subst connect_to_server.simps) simp
  with 1 show ?thesis by simp
qed

text \<open>A session that uses up the three failures: two at the start, one at a reconnection.\<close>

lemma run_three_failures: "run stroke_line (accepting_at 2) [Receive (RecvClosed refusing)] =
     (init_painter\<lparr>ws := Some Socket, retry_count := 3\<rparr>,
      [Handshake False, Sleep 1000, Handshake False, Sleep 1000, Handshake True,
       Handshake False, Sleep 1000, Sleep 1])"
  by (simp add: run_def run_start_def receive_iteration_def connect_to_server.simps
        accepting_at_def refusing_def init_painter_def)

theorem retry_budget_witness:
  "failed_attempts (snd (run stroke_line (accepting_at 2) [Receive (RecvClosed refusing)])) = 3
   \<and> retry_count (fst (run stroke_line (accepting_at 2) [Receive (RecvClosed refusing)])) = 3
   \<and> connect_to_server (accepting_at 0)
        (fst (run stroke_line (accepting_at 2) [Receive (RecvClosed refusing)])) =
      (False, fst (run stroke_line (accepting_at 2) [Receive (RecvClosed refusing)]), [])"
  using retry_budget [OF run_three_failures, of "accepting_at 0"]
  by (simp add: run_three_failures failed_attempts_def)

text \<open>
  C1. If the first connection sequence of \<^verbatim>\<open>run\<close> fails, so that local mode is
  entered, then after any further course of the session the mode is still local,
  the session has done nothing on the network (no handshake, no dispatch of an
  encoded record, no close), and a call of \<^verbatim>\<open>send_drawing\<close> draws the segment
  into the canvas, replaces the snapshot by the new canvas and has no effect
  besides (it fails only where \<^verbatim>\<open>cv2.line\<close> itself raises, and then with
  the canvas as that call left it).
\<close>

theorem local_mode_session:
  assumes "run_start answers init_painter = (s0, es0)" and "local_mode s0"
    and "session line s0 evs = (s, es)"
  shows "local_mode s \<and> filter is_network es = []
           \<and> send_drawing line now s x1 y1 x2 y2 c t =
               (case line (imgCanvas s) (PTuple [PInt x1, PInt y1]) (PTuple [PInt x2, PInt y2])
                       (color_tuple c) (PInt t) of
                  Raises img \<Rightarrow> Inl (Cv2Error, s\<lparr>imgCanvas := img\<rparr>)
                | Returns img \<Rightarrow> Inr (s\<lparr>imgCanvas := img, displayBuffer := img\<rparr>, []))"
proof -
  obtain ok s1 es1 where c: "connect_to_server answers init_painter = (ok, s1, es1)"
    by (cases "connect_to_server answers init_painter") auto
  with assms(1,2) have "\<not> ok" and s0: "s0 = s1\<lparr>local_mode := True\<rparr>"
    by (auto simp: run_start_def)
  with connect_to_server_frame [OF c] have "ws s0 = None"
    by (simp add: init_painter_def)
  with session_accounted [OF assms(3)] assms(2)
  have "local_mode s" "filter is_network es = []"
    by (auto simp: accounted_def)
  then show ?thesis
    by (simp add: send_drawing_def Let_def split: outcome.splits)
qed

text \<open>
  A session in local mode: a stroke is drawn, the key \<^verbatim>\<open>q\<close> ends the main loop,
  and a further call of \<^verbatim>\<open>send_drawing\<close> is looked at.
\<close>

lemma run_start_refusing: "run_start refusing init_painter =
   (init_painter\<lparr>retry_count := 3, local_mode := True\<rparr>,
    [Handshake False, Sleep 1000, Handshake False, Sleep 1000, Handshake False, Sleep 1000])"
  by (simp add: run_start_def connect_to_server.simps refusing_def init_painter_def)

lemma session_local_stroke: "session stroke_line (init_painter\<lparr>retry_count := 3, local_mode := True\<rparr>)
      [Frame \<lparr>hand = True, tip_x = 10, tip_y = 200, index_up = True, middle_up = False, clock = ''0.5''\<rparr>,
       Receive RecvTimeout,
       Quit \<lparr>hand = False, tip_x = 0, tip_y = 0, index_up = False, middle_up = False, clock = ''0.6''\<rparr>] =
    (init_painter\<lparr>retry_count := 3, local_mode := True, 
        imgCanvas := zeros(200 := (zeros 200)(10 := (189, 189, 103))),
        displayBuffer := zeros(200 := (zeros 200)(10 := (189, 189, 103))), 
        xp := 10, yp := 200, is_drawing := True, running := False\<rparr>, [Sleep 1])"
  by (simp add: main_step_def send_drawing_def stroke_line_def plot_ends_def plot_def color_tuple_def
         shutdown_def cleanup_def init_painter_def Let_def)

theorem local_mode_session_witness:
  "local_mode (fst (run_start refusing init_painter))
   \<and> send_drawing stroke_line ''0.7''
        (fst (session stroke_line (fst (run_start refusing init_painter))
          [Frame \<lparr>hand = True, tip_x = 10, tip_y = 200, index_up = True, middle_up = False, clock = ''0.5''\<rparr>,
           Receive RecvTimeout,
           Quit \<lparr>hand = False, tip_x = 0, tip_y = 0, index_up = False, middle_up = False, clock = ''0.6''\<rparr>])) 10 200 30 200 (189, 189, 103) 15 =
      Inr (init_painter\<lparr>retry_count := 3, local_mode := True, 
        imgCanvas := zeros(200 := (zeros 200)(10 := (189, 189, 103), 30 := (189, 189, 103))),
        displayBuffer := zeros(200 := (zeros 200)(10 := (189, 189, 103), 30 := (189, 189, 103))), 
        xp := 10, yp := 200, is_drawing := True, running := False\<rparr>, [])
   \<and> filter is_network (snd (session stroke_line (fst (run_start refusing init_painter))
          [Frame \<lparr>hand = True, tip_x = 10, tip_y = 200, index_up = True, middle_up = False, clock = ''0.5''\<rparr>,
           Receive RecvTimeout,
           Quit \<lparr>hand = False, tip_x = 0, tip_y = 0, index_up = False, middle_up = False, clock = ''0.6''\<rparr>])) = []"
  using local_mode_session [OF run_start_refusing _ session_local_stroke, of "''0.7''" 10 200 30 200 "(189, 189, 103)" 15]
  by (simp add: run_start_refusing session_local_stroke stroke_line_def plot_ends_def plot_def color_tuple_def
        del: session.simps)

text \<open>
  C3, as amended. When the receive loop meets a closed connection while
  connected, it sets \<^verbatim>\<open>connected\<close> to \<open>False\<close> and calls
  \<^verbatim>\<open>connect_to_server\<close> at once, on the retry counter of the session as it
  stands: the call makes at most \<open>max_retries - retry_count\<close> attempts, at least
  one if the counter is below the bound, and the client is connected afterwards
  exactly if the call returned \<open>True\<close>, which it does exactly if one of its
  handshakes was accepted. The mode is not written: whatever the events of
  a session, \<^verbatim>\<open>local_mode\<close> at its end is what it was at its start.
\<close>

theorem receive_closed_reconnects:
  assumes "ws s \<noteq> None" and "connected s"
  shows "(\<exists>ok s' es. connect_to_server answers (s\<lparr>connected := False\<rparr>) = (ok, s', es)
            \<and> receive_iteration line s (RecvClosed answers) = Some (s', es @ [Sleep 1])
            \<and> connected s' = ok \<and> ok = (Handshake True \<in> set es)
            \<and> local_mode s' = local_mode s
            \<and> int (attempts es) \<le> max 0 (max_retries s - retry_count s)
            \<and> (retry_count s < max_retries s \<longrightarrow> 1 \<le> attempts es))
         \<and> local_mode (fst (session line s evs)) = local_mode s"
proof -
  obtain ok s' es where c: "connect_to_server answers (s\<lparr>connected := False\<rparr>) = (ok, s', es)"
    by (cases "connect_to_server answers (s\<lparr>connected := False\<rparr>)") auto
  from assms c have "receive_iteration line s (RecvClosed answers) = Some (s', es @ [Sleep 1])"
    by (simp add: receive_iteration_def)
  moreover from connect_to_server_frame [OF c]
  have "connected s' = ok" "ok = (Handshake True \<in> set es)" "local_mode s' = local_mode s"
    "int (attempts es) \<le> max 0 (max_retries s - retry_count s)"
    "retry_count s < max_retries s \<longrightarrow> 1 \<le> attempts es"
    by auto
  moreover have "local_mode (fst (session line s evs)) = local_mode s"
    using session_accounted [of line s evs "fst (session line s evs)" "snd (session line s evs)"]
    by (simp add: accounted_def)
  ultimately show ?thesis using c by blast
qed

theorem receive_closed_reconnects_witness:
  "receive_iteration stroke_line (fst (run_start (accepting_at 0) init_painter))
       (RecvClosed (accepting_at 1)) =
     Some (init_painter\<lparr>ws := Some Socket, connected := True, retry_count := 1\<rparr>,
           [Handshake False, Sleep 1000, Handshake True, Sleep 1])
   \<and> local_mode (fst (session stroke_line (fst (run_start (accepting_at 0) init_painter))
        [Receive (RecvClosed (accepting_at 1)), Receive (RecvClosed refusing)])) = False"
  using receive_closed_reconnects [of "fst (run_start (accepting_at 0) init_painter)"
      "accepting_at 1" stroke_line
      "[Receive (RecvClosed (accepting_at 1)), Receive (RecvClosed refusing)]"]
  by (simp add: run_start_def receive_iteration_def connect_to_server.simps
        accepting_at_def refusing_def init_painter_def)

text \<open>
  C3 as stated (a new sequence of up to the full three attempts at every loss of
  the connection) fails after a start that needed three attempts: the reconnection
  stops after one refused attempt, where a call on a fresh counter makes three.
\<close>

theorem receive_closed_counterexample:
  "receive_iteration stroke_line (fst (run_start (accepting_at 2) init_painter))
       (RecvClosed refusing) =
     Some (init_painter\<lparr>ws := Some Socket, retry_count := 3\<rparr>,
           [Handshake False, Sleep 1000, Sleep 1])
   \<and> attempts [Handshake False, Sleep 1000, Sleep 1] = 1
   \<and> attempts (snd (snd (connect_to_server refusing init_painter))) = 3"
  by (simp add: run_start_def receive_iteration_def connect_to_server.simps
        accepting_at_def refusing_def init_painter_def attempts_def)

subsection \<open>Messages\<close>

text \<open>A client whose first handshake was accepted, and the fresh canvas.\<close>

lemma init_painter_canvas:
  "imgCanvas init_painter = zeros" "displayBuffer init_painter = zeros"
  "local_mode init_painter = False"
  by (simp_all add: init_painter_def)

lemma run_start_accepting: "run_start (accepting_at 0) init_painter =
   (init_painter\<lparr>ws := Some Socket, connected := True\<rparr>, [Handshake True])"
  by (simp add: run_start_def connect_to_server.simps accepting_at_def init_painter_def)

text \<open>What the receive path reads from a record that \<^verbatim>\<open>send_drawing\<close> built.\<close>

lemma decode_draw_event:
  "decode (draw_event x1 y1 x2 y2 c t now) =
     Inr (Some (PTuple [PInt x1, PInt y1], PTuple [PInt x2, PInt y2], color_tuple c, PInt t))"
  by (cases c) (simp add: decode_def draw_event_def draw_args_def color_tuple_def)

text \<open>
  C5, as amended. Decoding the record that \<^verbatim>\<open>send_drawing\<close> builds for a
  stroke gives back its two end points, its colour triple and its thickness, that
  is the very arguments with which the sender drew, whatever the timestamp. The
  timestamp is read from the clock when the record is built and is not read on the
  receiving side: building the record again from the same stroke at another clock
  reading gives a record that agrees with the first in every field but
  \<^verbatim>\<open>timestamp\<close>, which holds the new reading.
\<close>

theorem codec_round_trip:
  "decode (draw_event x1 y1 x2 y2 c t now) =
     Inr (Some (PTuple [PInt x1, PInt y1], PTuple [PInt x2, PInt y2], color_tuple c, PInt t))
   \<and> (\<exists>kvs kvs'. draw_event x1 y1 x2 y2 c t now = PDict kvs
         \<and> draw_event x1 y1 x2 y2 c t now' = PDict kvs'
         \<and> (\<forall>k. k \<noteq> ''timestamp'' \<longrightarrow> map_of kvs' k = map_of kvs k)
         \<and> map_of kvs' ''timestamp'' = Some (PStr now'))"
  by (cases c) (simp add: decode_def draw_event_def draw_args_def color_tuple_def)

theorem codec_round_trip_witness:
  "decode (draw_event 100 100 200 100 (255, 0, 0) 15 ''1.5'') =
     Inr (Some (PTuple [PInt 100, PInt 100], PTuple [PInt 200, PInt 100],
                PTuple [PInt 255, PInt 0, PInt 0], PInt 15))"
  using codec_round_trip [of 100 100 200 100 "(255, 0, 0)" 15 "''1.5''" "''2.5''"]
  by (simp add: color_tuple_def)

text \<open>
  C5 as stated (the decoded stroke has the timestamp of the encoded one, and
  encoding a decoded message gives the message back) fails: two records that
  differ in the timestamp only are different messages with the same decoding, so
  nothing computed from the decoding can return the timestamp or both messages.
\<close>

theorem codec_round_trip_counterexample:
  "decode (draw_event 100 100 200 100 (255, 0, 0) 15 ''1.5'') =
     decode (draw_event 100 100 200 100 (255, 0, 0) 15 ''2.5'')
   \<and> draw_event 100 100 200 100 (255, 0, 0) 15 ''1.5'' \<noteq>
       draw_event 100 100 200 100 (255, 0, 0) 15 ''2.5''"
  by (simp add: decode_def draw_event_def draw_args_def)

text \<open>
  C6. For all end points, colour and thickness, drawing the stroke through
  \<^verbatim>\<open>send_drawing\<close> and receiving its record through
  \<^verbatim>\<open>receive_drawings\<close> leave the same canvas and the same snapshot, when both
  start from the same canvas and snapshot: whether a stroke is local or remote has
  no influence on what is drawn. This holds for every behaviour of
  \<^verbatim>\<open>cv2.line\<close>, also where it raises (both paths then leave the canvas as
  that call left it, and the snapshot as it was).
\<close>

theorem local_remote_same_canvas:
  assumes "imgCanvas l = imgCanvas r" and "displayBuffer l = displayBuffer r"
    and "ws r \<noteq> None" and "connected r"
  shows "\<exists>r' es. receive_iteration line r (RecvJson (draw_event x1 y1 x2 y2 c t now)) = Some (r', es)
           \<and> imgCanvas r' = imgCanvas (after_send (send_drawing line now' l x1 y1 x2 y2 c t))
           \<and> displayBuffer r' = displayBuffer (after_send (send_drawing line now' l x1 y1 x2 y2 c t))"
  using assms
  by (cases "line (imgCanvas r) (PTuple [PInt x1, PInt y1]) (PTuple [PInt x2, PInt y2])
               (color_tuple c) (PInt t)")
     (simp_all add: receive_iteration_def handle_message_def decode_draw_event send_drawing_def Let_def)

theorem local_remote_same_canvas_witness:
  "receive_iteration stroke_line (fst (run_start (accepting_at 0) init_painter))
     (RecvJson (draw_event 100 100 200 100 (255, 0, 0) 15 ''1.5'')) =
   Some ((fst (run_start (accepting_at 0) init_painter))
           \<lparr>imgCanvas := imgCanvas (after_send (send_drawing stroke_line ''2.5'' init_painter 100 100 200 100 (255, 0, 0) 15)),
            displayBuffer := displayBuffer (after_send (send_drawing stroke_line ''2.5'' init_painter 100 100 200 100 (255, 0, 0) 15))\<rparr>,
         [Sleep 1])
   \<and> imgCanvas (after_send (send_drawing stroke_line ''2.5'' init_painter 100 100 200 100 (255, 0, 0) 15)) 100 200 = (255, 0, 0)"
  using local_remote_same_canvas [of init_painter "fst (run_start (accepting_at 0) init_painter)"
     stroke_line 100 100 200 100 "(255, 0, 0)" 15 "''1.5''" "''2.5''"]
  by (simp add: run_start_accepting receive_iteration_def handle_message_def decode_draw_event
        send_drawing_def color_tuple_def stroke_line_def plot_ends_def plot_def
        init_painter_canvas Let_def)

text \<open>
  What \<open>draw_args\<close> gives: an error where a key is missing or the colour is not
  iterable, and otherwise the fields as they stand.
\<close>

lemma draw_args_missing:
  "k \<in> set [''x1'', ''y1'', ''x2'', ''y2'', ''color'', ''thickness''] \<Longrightarrow> map_of kvs k = None
     \<Longrightarrow> \<exists>e. draw_args kvs = Inl e"
  by (auto simp: draw_args_def split: option.splits)

lemma draw_args_not_iterable:
  "map_of kvs ''color'' = Some v \<Longrightarrow> py_tuple v = None \<Longrightarrow> \<exists>e. draw_args kvs = Inl e"
  by (auto simp: draw_args_def split: option.splits)

lemma draw_args_present:
  "map_of kvs ''x1'' = Some x1 \<Longrightarrow> map_of kvs ''y1'' = Some y1 \<Longrightarrow>
   map_of kvs ''x2'' = Some x2 \<Longrightarrow> map_of kvs ''y2'' = Some y2 \<Longrightarrow>
   map_of kvs ''color'' = Some col \<Longrightarrow> py_tuple col = Some c \<Longrightarrow>
   map_of kvs ''thickness'' = Some th \<Longrightarrow>
   draw_args kvs = Inr (PTuple [x1, y1], PTuple [x2, y2], c, th)"
  by (simp add: draw_args_def)

text \<open>
  C4, as amended. The receive path makes no test of its own on the shape of the
  fields. A message is dropped, with the painter left exactly as it was (canvas,
  snapshot, socket, \<^verbatim>\<open>connected\<close> and all else) and nothing done but the sleep
  that ends the pass, if it is not JSON, or is JSON but not an object, or has a
  type other than \<^verbatim>\<open>"draw"\<close>, or lacks one of \<^verbatim>\<open>x1\<close>, \<^verbatim>\<open>y1\<close>, \<^verbatim>\<open>x2\<close>,
  \<^verbatim>\<open>y2\<close>, \<^verbatim>\<open>color\<close>, \<^verbatim>\<open>thickness\<close>, or has a colour that is not iterable.
  Every other message, that is a draw record with the six fields and an iterable
  colour, is handed to \<^verbatim>\<open>cv2.line\<close> as it stands. If that call returns, canvas
  and snapshot are what it drew. If it raises, the snapshot is as before and the
  canvas is as the call left it, which may hold pixels of the segment already. In
  both cases the connection stays as it was and the pass ends with its sleep.
\<close>

theorem receive_message_cases:
  assumes "ws s \<noteq> None" and "connected s"
  shows "receive_iteration line s RecvUnparseable = Some (s, [Sleep 1])
         \<and> ((\<forall>kvs. data \<noteq> PDict kvs) \<longrightarrow>
              receive_iteration line s (RecvJson data) = Some (s, [Sleep 1]))
         \<and> (map_of kvs ''type'' \<noteq> Some (PStr ''draw'')
              \<or> (\<exists>k \<in> set [''x1'', ''y1'', ''x2'', ''y2'', ''color'', ''thickness'']. map_of kvs k = None)
              \<or> (\<exists>v. map_of kvs ''color'' = Some v \<and> py_tuple v = None) \<longrightarrow>
              receive_iteration line s (RecvJson (PDict kvs)) = Some (s, [Sleep 1]))
         \<and> (map_of kvs ''type'' = Some (PStr ''draw'')
              \<and> map_of kvs ''x1'' = Some x1 \<and> map_of kvs ''y1'' = Some y1
              \<and> map_of kvs ''x2'' = Some x2 \<and> map_of kvs ''y2'' = Some y2
              \<and> map_of kvs ''color'' = Some col \<and> py_tuple col = Some c
              \<and> map_of kvs ''thickness'' = Some th \<longrightarrow>
              receive_iteration line s (RecvJson (PDict kvs)) =
                Some (case line (imgCanvas s) (PTuple [x1, y1]) (PTuple [x2, y2]) c th of
                        Returns img \<Rightarrow> s\<lparr>imgCanvas := img, displayBuffer := img\<rparr>
                      | Raises img \<Rightarrow> s\<lparr>imgCanvas := img\<rparr>,
                      [Sleep 1]))"
proof (intro conjI impI)
  show "receive_iteration line s RecvUnparseable = Some (s, [Sleep 1])"
    using assms by (simp add: receive_iteration_def)
next
  assume "\<forall>kvs. data \<noteq> PDict kvs"
  then have "decode data = Inl AttributeError"
    by (cases data) (simp_all add: decode_def)
  then show "receive_iteration line s (RecvJson data) = Some (s, [Sleep 1])"
    using assms by (simp add: receive_iteration_def handle_message_def)
next
  assume a: "map_of kvs ''type'' \<noteq> Some (PStr ''draw'')
      \<or> (\<exists>k \<in> set [''x1'', ''y1'', ''x2'', ''y2'', ''color'', ''thickness'']. map_of kvs k = None)
      \<or> (\<exists>v. map_of kvs ''color'' = Some v \<and> py_tuple v = None)"
  have "decode (PDict kvs) = Inr None \<or> (\<exists>e. decode (PDict kvs) = Inl e)"
  proof (cases "map_of kvs ''type'' = Some (PStr ''draw'')")
    case False
    then show ?thesis by (simp add: decode_def)
  next
    case True
    with a have "\<exists>e. draw_args kvs = Inl e"
      by (blast dest: draw_args_missing draw_args_not_iterable)
    with True show ?thesis by (auto simp: decode_def)
  qed
  then show "receive_iteration line s (RecvJson (PDict kvs)) = Some (s, [Sleep 1])"
    using assms by (auto simp: receive_iteration_def handle_message_def)
next
  assume a: "map_of kvs ''type'' = Some (PStr ''draw'')
      \<and> map_of kvs ''x1'' = Some x1 \<and> map_of kvs ''y1'' = Some y1
      \<and> map_of kvs ''x2'' = Some x2 \<and> map_of kvs ''y2'' = Some y2
      \<and> map_of kvs ''color'' = Some col \<and> py_tuple col = Some c
      \<and> map_of kvs ''thickness'' = Some th"
  then have "draw_args kvs = Inr (PTuple [x1, y1], PTuple [x2, y2], c, th)"
    by (simp add: draw_args_present)
  with a have "decode (PDict kvs) = Inr (Some (PTuple [x1, y1], PTuple [x2, y2], c, th))"
    by (simp add: decode_def)
  then show "receive_iteration line s (RecvJson (PDict kvs)) =
      Some (case line (imgCanvas s) (PTuple [x1, y1]) (PTuple [x2, y2]) c th of
              Returns img \<Rightarrow> s\<lparr>imgCanvas := img, displayBuffer := img\<rparr>
            | Raises img \<Rightarrow> s\<lparr>imgCanvas := img\<rparr>,
            [Sleep 1])"
    using assms by (simp add: receive_iteration_def handle_message_def split: outcome.splits)
qed

text \<open>
  A record without colour is dropped; a record with the six fields is handed to
  the line, here the stand-in, and canvas and snapshot show what it drew.
\<close>

theorem receive_message_cases_witness:
  "receive_iteration stroke_line (fst (run_start (accepting_at 0) init_painter))
     (RecvJson (PDict [(''type'', PStr ''draw''), (''x1'', PInt 0), (''y1'', PInt 0),
        (''x2'', PInt 5), (''y2'', PInt 5), (''thickness'', PInt 3)])) =
   Some (fst (run_start (accepting_at 0) init_painter), [Sleep 1])
   \<and> receive_iteration stroke_line (fst (run_start (accepting_at 0) init_painter))
     (RecvJson (PDict [(''type'', PStr ''draw''), (''x1'', PInt 0), (''y1'', PInt 0),
        (''x2'', PInt 5), (''y2'', PInt 5), (''color'', PList [PInt 7, PInt 8, PInt 9]),
        (''thickness'', PInt 3)])) =
   Some ((fst (run_start (accepting_at 0) init_painter))
           \<lparr>imgCanvas := zeros(0 := (zeros 0)(0 := (7, 8, 9)), 5 := (zeros 5)(5 := (7, 8, 9))),
            displayBuffer := zeros(0 := (zeros 0)(0 := (7, 8, 9)), 5 := (zeros 5)(5 := (7, 8, 9)))\<rparr>,
         [Sleep 1])"
  using receive_message_cases [of "fst (run_start (accepting_at 0) init_painter)" stroke_line
     PNone
     "[(''type'', PStr ''draw''), (''x1'', PInt 0), (''y1'', PInt 0),
        (''x2'', PInt 5), (''y2'', PInt 5), (''thickness'', PInt 3)]"]
    receive_message_cases [of "fst (run_start (accepting_at 0) init_painter)" stroke_line
     PNone
     "[(''type'', PStr ''draw''), (''x1'', PInt 0), (''y1'', PInt 0),
        (''x2'', PInt 5), (''y2'', PInt 5), (''color'', PList [PInt 7, PInt 8, PInt 9]),
        (''thickness'', PInt 3)]"
     "PInt 0" "PInt 0" "PInt 5" "PInt 5" "PList [PInt 7, PInt 8, PInt 9]"
     "PTuple [PInt 7, PInt 8, PInt 9]" "PInt 3"]
  by (simp add: run_start_accepting stroke_line_def plot_ends_def plot_def init_painter_canvas)

text \<open>
  C4 as stated fails for a field of the wrong shape that OpenCV accepts: a colour
  of four channels instead of three is a valid \<^verbatim>\<open>Scalar\<close>, and the segment is
  drawn with its first three.
\<close>

theorem wrong_shape_drawn_counterexample:
  "\<not> well_formed_draw (PDict [(''type'', PStr ''draw''), (''x1'', PInt 0), (''y1'', PInt 0),
        (''x2'', PInt 5), (''y2'', PInt 5), (''color'', PList [PInt 0, PInt 0, PInt 255, PInt 255]),
        (''thickness'', PInt 3)])
   \<and> (case receive_iteration stroke_line (fst (run_start (accepting_at 0) init_painter))
          (RecvJson (PDict [(''type'', PStr ''draw''), (''x1'', PInt 0), (''y1'', PInt 0),
        (''x2'', PInt 5), (''y2'', PInt 5), (''color'', PList [PInt 0, PInt 0, PInt 255, PInt 255]),
        (''thickness'', PInt 3)])) of
      None \<Rightarrow> False
    | Some (s, es) \<Rightarrow>
        imgCanvas s 0 0 = (0, 0, 255) \<and> displayBuffer s 0 0 = (0, 0, 255)
        \<and> imgCanvas s 0 0 \<noteq> imgCanvas (fst (run_start (accepting_at 0) init_painter)) 0 0)"
  by (simp add: run_start_accepting receive_iteration_def handle_message_def decode_def
        draw_args_def field_is_def stroke_line_def plot_ends_def plot_def
        init_painter_canvas zeros_def)

subsection \<open>The overlay, pixel by pixel\<close>

lemma word8_and_255: "(a :: 8 word) AND 255 = a"
proof -
  have e: "(255 :: 8 word) = - 1" by simp
  show ?thesis by (subst e) simp
qed

text \<open>
  C7, as amended. The overlay is a function of the camera frame and the snapshot,
  computed pixel by pixel, and it writes no attribute of the painter. Where the
  gray value of the snapshot's pixel is above 50, the result is the snapshot's
  pixel. Elsewhere it is the bitwise OR of the camera's pixel and the snapshot's
  pixel, which is the camera's pixel where the snapshot is black.
\<close>

theorem overlay_canvas_pixel:
  "fst (overlay_canvas gray s img) = s
   \<and> snd (overlay_canvas gray s img) y x =
       (if 50 < gray (displayBuffer s y x) then displayBuffer s y x
        else pixel_or (img y x) (displayBuffer s y x))
   \<and> pixel_or (img y x) (0, 0, 0) = img y x"
  by (simp add: overlay_canvas_def Let_def bitwise_or_def bitwise_and_def cvtColor_GRAY2BGR_def
     threshold_BINARY_INV_def cvtColor_BGR2GRAY_def pixel_or_def pixel_and_def word8_and_255
     split: prod.splits)

theorem overlay_canvas_pixel_witness:
  "snd (overlay_canvas luma
          (init_painter\<lparr>displayBuffer := zeros(0 := (zeros 0)(0 := (189, 189, 103)))\<rparr>)
          (\<lambda>y x. (200, 0, 0))) 0 0 = (189, 189, 103)
   \<and> snd (overlay_canvas luma
          (init_painter\<lparr>displayBuffer := zeros(0 := (zeros 0)(0 := (189, 189, 103)))\<rparr>)
          (\<lambda>y x. (200, 0, 0))) 0 1 = (200, 0, 0)"
  using overlay_canvas_pixel [of luma
          "init_painter\<lparr>displayBuffer := zeros(0 := (zeros 0)(0 := (189, 189, 103)))\<rparr>"
          "\<lambda>y x. (200, 0, 0)" 0 0]
        overlay_canvas_pixel [of luma
          "init_painter\<lparr>displayBuffer := zeros(0 := (zeros 0)(0 := (189, 189, 103)))\<rparr>"
          "\<lambda>y x. (200, 0, 0)" 0 1]
  by (simp add: luma_def zeros_def pixel_or_def)

text \<open>
  C7 as stated (a pixel at or below the threshold lets the camera's pixel through)
  fails for a dark pixel that is not black: after a remote stroke of colour
  \<open>(0, 0, 100)\<close>, whose gray value is 30, the camera's pixel \<open>(200, 0, 0)\<close> is
  shown as \<open>(200, 0, 100)\<close>.
\<close>

theorem overlay_canvas_counterexample:
  "(case receive_iteration stroke_line (fst (run_start (accepting_at 0) init_painter))
          (RecvJson (draw_event 0 0 5 5 (0, 0, 100) 3 ''1.5'')) of
      None \<Rightarrow> False
    | Some (s, es) \<Rightarrow>
        displayBuffer s 0 0 = (0, 0, 100) \<and> luma (displayBuffer s 0 0) \<le> 50
        \<and> snd (overlay_canvas luma s (\<lambda>y x. (200, 0, 0))) 0 0 = (200, 0, 100)
        \<and> snd (overlay_canvas luma s (\<lambda>y x. (200, 0, 0))) 0 0 \<noteq> (200, 0, 0))"
  by (simp add: run_start_accepting receive_iteration_def handle_message_def decode_draw_event
        color_tuple_def stroke_line_def plot_ends_def plot_def
        overlay_canvas_def Let_def bitwise_or_def bitwise_and_def cvtColor_GRAY2BGR_def
        threshold_BINARY_INV_def cvtColor_BGR2GRAY_def pixel_or_def pixel_and_def luma_def
        init_painter_canvas)

end
